theory Spec2Isabelle
  imports Complex_Main
begin

section \<open>The animated background (BackgroundAnimation)\<close>

text \<open>
  The component owns a canvas, a fixed array of particles and an animation loop. Its
  effect body (the function given to \<open>useEffect\<close>) is \<open>mount\<close> below, the closure the
  effect returns is \<open>unmount\<close>, and \<open>resize\<close> and \<open>step\<close> are the two local functions
  of the source.

  A JavaScript number is a real, and every addition, subtraction, multiplication and
  division of the source rounds its exact result to the nearest double (\<open>fl\<close> below);
  comparisons and assignments are exact. No NaN and no infinity arises from the finite
  values the component reads. The integer attributes of the DOM (\<open>clientWidth\<close>,
  \<open>innerWidth\<close>: non-negative \<open>long\<close>s) are naturals.
\<close>

subsection \<open>Double arithmetic\<close>

text \<open>
  \<open>fl x\<close> is the double nearest to \<open>x\<close>, ties to the even significand: \<open>binade x\<close>
  is the exponent of \<open>x\<close> (not below that of the smallest normal double), \<open>ulp x\<close> the
  spacing of the doubles there, and \<open>x\<close> is rounded to a multiple of it. Numbers of
  magnitude \<open>2 ^ 1024\<close> and more, which round to infinity, do not arise.
\<close>

definition pow2 :: "int \<Rightarrow> real" where
  "pow2 k = (if 0 \<le> k then 2 ^ nat k else 1 / 2 ^ nat (- k))"

definition round_even :: "real \<Rightarrow> int" where
  "round_even y =
     (let n = \<lfloor>y\<rfloor>
      in if y - of_int n < 1 / 2 then n
         else if 1 / 2 < y - of_int n then n + 1
         else if even n then n else n + 1)"

definition binade :: "real \<Rightarrow> int" where
  "binade x = max \<lfloor>log 2 \<bar>x\<bar>\<rfloor> (- 1022)"

definition ulp :: "real \<Rightarrow> real" where
  "ulp x = pow2 (binade x - 52)"

definition fl_pos :: "real \<Rightarrow> real" where
  "fl_pos x = (if x = 0 then 0 else of_int (round_even (x / ulp x)) * ulp x)"

definition fl :: "real \<Rightarrow> real" where
  "fl x = (if x < 0 then - fl_pos (- x) else fl_pos x)"

text \<open>
  The operators \<open>+\<close>, \<open>-\<close>, \<open>*\<close> and \<open>/\<close> on numbers, and \<open>Math.PI\<close>. The only
  division of the source is by 120.
\<close>

definition add64 :: "real \<Rightarrow> real \<Rightarrow> real" where
  "add64 a b = fl (a + b)"

definition sub64 :: "real \<Rightarrow> real \<Rightarrow> real" where
  "sub64 a b = fl (a - b)"

definition mul64 :: "real \<Rightarrow> real \<Rightarrow> real" where
  "mul64 a b = fl (a * b)"

definition div64 :: "real \<Rightarrow> real \<Rightarrow> real" where
  "div64 a b = fl (a / b)"

definition Math_PI :: real where
  "Math_PI = fl pi"

text \<open>
  \<open>Math.hypot\<close> is a function of the host, which the language leaves to the
  implementation's approximation: the browser below carries it as \<open>math_hypot\<close>.
  \<open>hypot64\<close> is the correctly rounded one, used for concrete inputs only.
\<close>

definition hypot64 :: "real \<Rightarrow> real \<Rightarrow> real" where
  "hypot64 a b = fl (sqrt (a\<^sup>2 + b\<^sup>2))"

subsection \<open>Particles\<close>

text \<open>
  The object literal of the source has the fields \<open>x, y, vx, vy, r\<close>; the selectors
  carry a prefix so that these letters stay variables.
\<close>

record particle =
  p_x :: real
  p_y :: real
  p_vx :: real
  p_vy :: real
  p_r :: real

subsection \<open>The browser: canvas, 2D context, frame scheduler, resize observer, Math\<close>

datatype color = RGBA nat nat nat real

fun alpha :: "color \<Rightarrow> real" where
  "alpha (RGBA cr cg cb ca) = ca"

record gradient =
  g_x0 :: real
  g_y0 :: real
  g_r0 :: real
  g_x1 :: real
  g_y1 :: real
  g_r1 :: real
  g_stops :: "(real \<times> color) list"

datatype style = Color color | Gradient gradient

datatype seg =
    MoveTo real real
  | LineTo real real
  | Arc real real real real real

text \<open>
  What the component does to its environment, in the order it does it: the drawing
  calls that reach the bitmap, and the animation frames it requests.
\<close>

datatype effect =
    Cleared real real real real
  | Stroked "seg list" style real
  | Filled "seg list" style
  | FrameRequested nat

text \<open>
  \<open>canvas_width\<close> and \<open>canvas_height\<close> are the backing buffer of the canvas element;
  \<open>transform\<close> to \<open>path\<close> are the drawing state of its 2D context; \<open>raf_pending\<close> holds
  the handles of the animation frame callbacks not yet run (every callback this component
  registers is \<open>step\<close>) and \<open>raf_next\<close> the next handle to hand out; \<open>ro_observing\<close>
  tells whether the ResizeObserver is attached to the canvas; \<open>math_hypot\<close> is the
  host's \<open>Math.hypot\<close>.
\<close>

record browser =
  canvas_width :: int
  canvas_height :: int
  transform :: "real \<times> real \<times> real \<times> real \<times> real \<times> real"
  strokeStyle :: style
  fillStyle :: style
  lineWidth :: real
  path :: "seg list"
  raf_pending :: "nat list"
  raf_next :: nat
  ro_observing :: bool
  math_hypot :: "real \<Rightarrow> real \<Rightarrow> real"
  effects :: "effect list"

text \<open>
  What the component finds in its host when it runs: the window, the client box of the
  canvas, and \<open>Math.hypot\<close>.
\<close>

record page =
  devicePixelRatio :: real
  innerWidth :: nat
  innerHeight :: nat
  clientWidth :: nat
  clientHeight :: nat
  Math_hypot :: "real \<Rightarrow> real \<Rightarrow> real"

text \<open>
  Assigning \<open>canvas.width\<close> or \<open>canvas.height\<close> resets the drawing state of the context
  to its defaults (identity transform, black styles, line width 1, empty path).
\<close>

definition reset_context :: "browser \<Rightarrow> browser" where
  "reset_context b =
     b\<lparr>transform := (1, 0, 0, 1, 0, 0),
       strokeStyle := Color (RGBA 0 0 0 1),
       fillStyle := Color (RGBA 0 0 0 1),
       lineWidth := 1,
       path := []\<rparr>"

definition set_canvas_width :: "int \<Rightarrow> browser \<Rightarrow> browser" where
  "set_canvas_width n b = reset_context (b\<lparr>canvas_width := n\<rparr>)"

definition set_canvas_height :: "int \<Rightarrow> browser \<Rightarrow> browser" where
  "set_canvas_height n b = reset_context (b\<lparr>canvas_height := n\<rparr>)"

definition setTransform ::
  "real \<Rightarrow> real \<Rightarrow> real \<Rightarrow> real \<Rightarrow> real \<Rightarrow> real \<Rightarrow> browser \<Rightarrow> browser" where
  "setTransform a b c d e f br = br\<lparr>transform := (a, b, c, d, e, f)\<rparr>"

definition clearRect :: "real \<Rightarrow> real \<Rightarrow> real \<Rightarrow> real \<Rightarrow> browser \<Rightarrow> browser" where
  "clearRect cx cy cw ch b = b\<lparr>effects := effects b @ [Cleared cx cy cw ch]\<rparr>"

definition set_strokeStyle :: "style \<Rightarrow> browser \<Rightarrow> browser" where
  "set_strokeStyle st b = b\<lparr>strokeStyle := st\<rparr>"

definition set_fillStyle :: "style \<Rightarrow> browser \<Rightarrow> browser" where
  "set_fillStyle st b = b\<lparr>fillStyle := st\<rparr>"

definition set_lineWidth :: "real \<Rightarrow> browser \<Rightarrow> browser" where
  "set_lineWidth lw b = b\<lparr>lineWidth := lw\<rparr>"

definition beginPath :: "browser \<Rightarrow> browser" where
  "beginPath b = b\<lparr>path := []\<rparr>"

definition moveTo :: "real \<Rightarrow> real \<Rightarrow> browser \<Rightarrow> browser" where
  "moveTo mx my b = b\<lparr>path := path b @ [MoveTo mx my]\<rparr>"

definition lineTo :: "real \<Rightarrow> real \<Rightarrow> browser \<Rightarrow> browser" where
  "lineTo mx my b = b\<lparr>path := path b @ [LineTo mx my]\<rparr>"

definition arc :: "real \<Rightarrow> real \<Rightarrow> real \<Rightarrow> real \<Rightarrow> real \<Rightarrow> browser \<Rightarrow> browser" where
  "arc ax ay rad a0 a1 b = b\<lparr>path := path b @ [Arc ax ay rad a0 a1]\<rparr>"

definition stroke :: "browser \<Rightarrow> browser" where
  "stroke b = b\<lparr>effects := effects b @ [Stroked (path b) (strokeStyle b) (lineWidth b)]\<rparr>"

definition fill :: "browser \<Rightarrow> browser" where
  "fill b = b\<lparr>effects := effects b @ [Filled (path b) (fillStyle b)]\<rparr>"

definition createRadialGradient ::
  "real \<Rightarrow> real \<Rightarrow> real \<Rightarrow> real \<Rightarrow> real \<Rightarrow> real \<Rightarrow> gradient" where
  "createRadialGradient ax ay ar bx by br =
     \<lparr>g_x0 = ax, g_y0 = ay, g_r0 = ar, g_x1 = bx, g_y1 = by, g_r1 = br, g_stops = []\<rparr>"

definition addColorStop :: "real \<Rightarrow> color \<Rightarrow> gradient \<Rightarrow> gradient" where
  "addColorStop off c g = g\<lparr>g_stops := g_stops g @ [(off, c)]\<rparr>"

text \<open>
  \<open>requestAnimationFrame(step)\<close> registers the callback under a fresh handle and returns
  the handle; \<open>cancelAnimationFrame\<close> removes the callback registered under a handle.
\<close>

definition requestAnimationFrame :: "browser \<Rightarrow> nat \<times> browser" where
  "requestAnimationFrame b =
     (raf_next b,
      b\<lparr>raf_pending := raf_pending b @ [raf_next b],
        raf_next := raf_next b + 1,
        effects := effects b @ [FrameRequested (raf_next b)]\<rparr>)"

definition cancelAnimationFrame :: "nat \<Rightarrow> browser \<Rightarrow> browser" where
  "cancelAnimationFrame hdl b = b\<lparr>raf_pending := removeAll hdl (raf_pending b)\<rparr>"

definition observe :: "browser \<Rightarrow> browser" where
  "observe b = b\<lparr>ro_observing := True\<rparr>"

definition disconnect :: "browser \<Rightarrow> browser" where
  "disconnect b = b\<lparr>ro_observing := False\<rparr>"

text \<open>
  The opacity a gradient paints: colour stops are interpolated linearly, and a
  concentric radial gradient paints, at distance \<open>d\<close> from its centre, the colour at
  offset \<open>(d - r0) / (r1 - r0)\<close>.
\<close>

fun stops_alpha :: "(real \<times> color) list \<Rightarrow> real \<Rightarrow> real" where
  "stops_alpha [] t = 0"
| "stops_alpha [(o1, c1)] t = alpha c1"
| "stops_alpha ((o1, c1) # (o2, c2) # rest) t =
     (if t \<le> o1 then alpha c1
      else if t < o2 then alpha c1 + (alpha c2 - alpha c1) * ((t - o1) / (o2 - o1))
      else stops_alpha ((o2, c2) # rest) t)"

definition radial_alpha :: "gradient \<Rightarrow> real \<Rightarrow> real" where
  "radial_alpha g d = stops_alpha (g_stops g) ((d - g_r0 g) / (g_r1 g - g_r0 g))"

subsection \<open>The component\<close>

text \<open>
  The variables the effect closes over: \<open>dpi\<close>, \<open>w\<close>, \<open>h\<close>, \<open>particles\<close>,
  \<open>rafRef.current\<close>, and the browser it acts on.
\<close>

record component =
  dpi :: real
  w :: nat
  h :: nat
  particles :: "particle list"
  rafRef :: nat
  browser :: browser

text \<open>\<open>Math.max(1, window.devicePixelRatio || 1)\<close>: a ratio of 0 is falsy.\<close>

definition read_dpi :: "page \<Rightarrow> real" where
  "read_dpi pg = max 1 (if devicePixelRatio pg = 0 then 1 else devicePixelRatio pg)"

definition resize :: "page \<Rightarrow> component \<Rightarrow> component" where
  "resize pg s =
     (let s = s\<lparr>w := clientWidth pg\<rparr>;
          s = s\<lparr>h := clientHeight pg\<rparr>;
          s = s\<lparr>browser := set_canvas_width \<lfloor>mul64 (real (w s)) (dpi s)\<rfloor> (browser s)\<rparr>;
          s = s\<lparr>browser := set_canvas_height \<lfloor>mul64 (real (h s)) (dpi s)\<rfloor> (browser s)\<rparr>;
          s = s\<lparr>browser := setTransform (dpi s) 0 0 (dpi s) 0 0 (browser s)\<rparr>
      in s)"

text \<open>
  \<open>Math.random()\<close> is a stream \<open>rnd\<close> of the values it returns, in call order: the
  object literal of particle \<open>k\<close> draws the five values \<open>rnd (5 k)\<close> to \<open>rnd (5 k + 4)\<close>.
  The literals \<open>0.5\<close> and \<open>0.25\<close> are doubles; \<open>1.2\<close> and \<open>1.8\<close> denote the doubles
  nearest to them.
\<close>

definition new_particle :: "(nat \<Rightarrow> real) \<Rightarrow> page \<Rightarrow> nat \<Rightarrow> particle" where
  "new_particle rnd pg k =
     \<lparr>p_x = mul64 (rnd (5 * k)) (real (innerWidth pg)),
      p_y = mul64 (rnd (5 * k + 1)) (real (innerHeight pg)),
      p_vx = mul64 (sub64 (rnd (5 * k + 2)) 0.5) 0.25,
      p_vy = mul64 (sub64 (rnd (5 * k + 3)) 0.5) 0.25,
      p_r = add64 (fl 1.2) (mul64 (rnd (5 * k + 4)) (fl 1.8))\<rparr>"

definition init_particles :: "(nat \<Rightarrow> real) \<Rightarrow> page \<Rightarrow> particle list" where
  "init_particles rnd pg = map (new_particle rnd pg) [0..<36]"

text \<open>
  The body of the inner loop of the link pass, for the particles \<open>p\<close> and \<open>q\<close> and the
  host's \<open>Math.hypot\<close>; the literal \<open>0.35\<close> denotes the double nearest to it.
\<close>

definition draw_link ::
  "(real \<Rightarrow> real \<Rightarrow> real) \<Rightarrow> particle \<Rightarrow> particle \<Rightarrow> browser \<Rightarrow> browser" where
  "draw_link hyp p q b =
     (let dx = sub64 (p_x p) (p_x q);
          dy = sub64 (p_y p) (p_y q);
          dist = hyp dx dy
      in if dist < 120 then
           (let al = mul64 (sub64 1 (div64 dist 120)) (fl 0.35);
                b = set_strokeStyle (Color (RGBA 0 194 255 al)) b;
                b = set_lineWidth 1 b;
                b = beginPath b;
                b = moveTo (p_x p) (p_y p) b;
                b = lineTo (p_x q) (p_y q) b;
                b = stroke b
            in b)
         else b)"

text \<open>
  The link pass: \<open>i\<close> runs over \<open>0, ..., length - 1\<close> and, for each \<open>i\<close>, \<open>j\<close> over
  \<open>i + 1, ..., length - 1\<close>. The pass reads the particles and \<open>Math.hypot\<close> and writes
  neither, so both are arguments.
\<close>

definition draw_links ::
  "(real \<Rightarrow> real \<Rightarrow> real) \<Rightarrow> particle list \<Rightarrow> browser \<Rightarrow> browser" where
  "draw_links hyp ps b =
     fold (\<lambda>i. fold (\<lambda>j. draw_link hyp (ps ! i) (ps ! j)) [i + 1..<length ps])
       [0..<length ps] b"

text \<open>
  The position update of one particle, on a surface of logical size \<open>cw\<close> by \<open>ch\<close>.
  The sums \<open>w + 20\<close> and \<open>h + 20\<close> are sums of small integers (the client sizes are
  \<open>long\<close>s), which doubles hold exactly.
\<close>

definition advance :: "nat \<Rightarrow> nat \<Rightarrow> particle \<Rightarrow> particle" where
  "advance cw ch p =
     (let p = p\<lparr>p_x := add64 (p_x p) (p_vx p)\<rparr>;
          p = p\<lparr>p_y := add64 (p_y p) (p_vy p)\<rparr>;
          p = (if p_x p < - 20 then p\<lparr>p_x := real cw + 20\<rparr> else p);
          p = (if p_x p > real cw + 20 then p\<lparr>p_x := - 20\<rparr> else p);
          p = (if p_y p < - 20 then p\<lparr>p_y := real ch + 20\<rparr> else p);
          p = (if p_y p > real ch + 20 then p\<lparr>p_y := - 20\<rparr> else p)
      in p)"

text \<open>The two discs of one particle: the glow, then the core.\<close>

definition draw_particle :: "particle \<Rightarrow> browser \<Rightarrow> browser" where
  "draw_particle p b =
     (let grd = createRadialGradient (p_x p) (p_y p) 0 (p_x p) (p_y p) 16;
          grd = addColorStop 0 (RGBA 124 58 237 0.55) grd;
          grd = addColorStop 1 (RGBA 124 58 237 0) grd;
          b = set_fillStyle (Gradient grd) b;
          b = beginPath b;
          b = arc (p_x p) (p_y p) (mul64 (p_r p) 5) 0 (mul64 Math_PI 2) b;
          b = fill b;
          b = set_fillStyle (Color (RGBA 0 194 255 0.9)) b;
          b = beginPath b;
          b = arc (p_x p) (p_y p) (p_r p) 0 (mul64 Math_PI 2) b;
          b = fill b
      in b)"

text \<open>
  One round of the particle loop: the particle at index \<open>i\<close> is moved in place and
  drawn at its new position.
\<close>

definition step_particle ::
  "nat \<Rightarrow> nat \<Rightarrow> nat \<Rightarrow> particle list \<times> browser \<Rightarrow> particle list \<times> browser" where
  "step_particle cw ch i = (\<lambda>(ps, b).
     (let p = advance cw ch (ps ! i)
      in (ps[i := p], draw_particle p b)))"

text \<open>
  One frame: clear, link pass, particle loop (over the indices of the array, in order),
  then \<open>rafRef.current = requestAnimationFrame(step)\<close>.
\<close>

definition step :: "component \<Rightarrow> component" where
  "step s =
     (let b = clearRect 0 0 (real (w s)) (real (h s)) (browser s);
          b = draw_links (math_hypot b) (particles s) b;
          (ps, b) = fold (step_particle (w s) (h s)) [0..<length (particles s)] (particles s, b);
          (hdl, b) = requestAnimationFrame b
      in s\<lparr>particles := ps, rafRef := hdl, browser := b\<rparr>)"

text \<open>
  The canvas as the page creates it (300 by 150, default drawing state), with no frame
  requested and no observer attached, in a host whose \<open>Math.hypot\<close> is \<open>hyp\<close>.
\<close>

definition fresh_browser :: "(real \<Rightarrow> real \<Rightarrow> real) \<Rightarrow> browser" where
  "fresh_browser hyp =
     \<lparr>canvas_width = 300, canvas_height = 150,
      transform = (1, 0, 0, 1, 0, 0),
      strokeStyle = Color (RGBA 0 0 0 1),
      fillStyle = Color (RGBA 0 0 0 1),
      lineWidth = 1,
      path = [],
      raf_pending = [],
      raf_next = 1,
      ro_observing = False,
      math_hypot = hyp,
      effects = []\<rparr>"

text \<open>The state of the closure once \<open>particles\<close> is built, before anything is drawn.\<close>

definition created :: "(nat \<Rightarrow> real) \<Rightarrow> page \<Rightarrow> component" where
  "created rnd pg =
     \<lparr>dpi = read_dpi pg, w = 0, h = 0,
      particles = init_particles rnd pg,
      rafRef = 0,
      browser = fresh_browser (Math_hypot pg)\<rparr>"

definition mount :: "(nat \<Rightarrow> real) \<Rightarrow> page \<Rightarrow> component" where
  "mount rnd pg =
     (let s = created rnd pg;
          s = s\<lparr>browser := observe (browser s)\<rparr>;
          s = resize pg s;
          s = step s
      in s)"

definition unmount :: "component \<Rightarrow> component" where
  "unmount s =
     (let s = s\<lparr>browser := cancelAnimationFrame (rafRef s) (browser s)\<rparr>;
          s = s\<lparr>browser := disconnect (browser s)\<rparr>
      in s)"

subsection \<open>What the browser does to a mounted component\<close>

text \<open>
  An animation frame runs the callbacks that were pending when it began, each once,
  after taking them off the list; a resize notification, carrying the page as it then
  is, reaches \<open>resize\<close> only while the observer is attached.
\<close>

datatype event = AnimationFrame | ResizeNotify page

definition animation_frame :: "component \<Rightarrow> component" where
  "animation_frame s =
     fold (\<lambda>hdl. step) (raf_pending (browser s))
       (s\<lparr>browser := (browser s)\<lparr>raf_pending := []\<rparr>\<rparr>)"

fun dispatch :: "event \<Rightarrow> component \<Rightarrow> component" where
  "dispatch AnimationFrame s = animation_frame s"
| "dispatch (ResizeNotify pg) s = (if ro_observing (browser s) then resize pg s else s)"

definition run :: "event list \<Rightarrow> component \<Rightarrow> component" where
  "run evs s = fold dispatch evs s"

subsection \<open>What a frame draws, stated apart from the loops\<close>

text \<open>
  The definitions of this subsection are not functions of the source: they state what
  one frame draws, pair by pair and particle by particle, and the lemmas below prove
  that the loops of \<open>step\<close> draw exactly that.

  \<open>pairs n\<close> lists the index pairs \<open>(i, j)\<close> with \<open>i < j < n\<close> in the order of the
  nested pattern; \<open>link_dist\<close> is the number the host's \<open>Math.hypot\<close> returns for the
  coordinate differences of a pair; \<open>near\<close> is the strict test of that number against
  120; \<open>link_line\<close> is the line drawn for a pair; \<open>glow_gradient\<close> is the gradient of
  the glow of a particle at a given position and \<open>disc_effects\<close> the pair of discs drawn
  for a particle.
\<close>

definition pairs :: "nat \<Rightarrow> (nat \<times> nat) list" where
  "pairs n = concat (map (\<lambda>i. map (\<lambda>j. (i, j)) [i + 1..<n]) [0..<n])"

definition link_dist :: "(real \<Rightarrow> real \<Rightarrow> real) \<Rightarrow> particle \<Rightarrow> particle \<Rightarrow> real" where
  "link_dist hyp p q = hyp (sub64 (p_x p) (p_x q)) (sub64 (p_y p) (p_y q))"

definition near :: "(real \<Rightarrow> real \<Rightarrow> real) \<Rightarrow> particle list \<Rightarrow> nat \<times> nat \<Rightarrow> bool" where
  "near hyp ps = (\<lambda>(i, j). link_dist hyp (ps ! i) (ps ! j) < 120)"

definition link_line :: "(real \<Rightarrow> real \<Rightarrow> real) \<Rightarrow> particle list \<Rightarrow> nat \<times> nat \<Rightarrow> effect" where
  "link_line hyp ps = (\<lambda>(i, j).
     Stroked [MoveTo (p_x (ps ! i)) (p_y (ps ! i)), LineTo (p_x (ps ! j)) (p_y (ps ! j))]
       (Color (RGBA 0 194 255
          (mul64 (sub64 1 (div64 (link_dist hyp (ps ! i) (ps ! j)) 120)) (fl 0.35))))
       1)"

definition link_effects :: "(real \<Rightarrow> real \<Rightarrow> real) \<Rightarrow> particle \<Rightarrow> particle \<Rightarrow> effect list" where
  "link_effects hyp p q =
     (if link_dist hyp p q < 120
      then [Stroked [MoveTo (p_x p) (p_y p), LineTo (p_x q) (p_y q)]
              (Color (RGBA 0 194 255 (mul64 (sub64 1 (div64 (link_dist hyp p q) 120)) (fl 0.35))))
              1]
      else [])"

definition glow_gradient :: "real \<Rightarrow> real \<Rightarrow> gradient" where
  "glow_gradient cx cy =
     \<lparr>g_x0 = cx, g_y0 = cy, g_r0 = 0, g_x1 = cx, g_y1 = cy, g_r1 = 16,
      g_stops = [(0, RGBA 124 58 237 0.55), (1, RGBA 124 58 237 0)]\<rparr>"

definition disc_effects :: "particle \<Rightarrow> effect list" where
  "disc_effects p =
     [Filled [Arc (p_x p) (p_y p) (mul64 (p_r p) 5) 0 (mul64 Math_PI 2)]
        (Gradient (glow_gradient (p_x p) (p_y p))),
      Filled [Arc (p_x p) (p_y p) (p_r p) 0 (mul64 Math_PI 2)] (Color (RGBA 0 194 255 0.9))]"

text \<open>
  The part of the browser that no drawing call touches: the backing buffer, the
  transform, the frame scheduler, the observer and \<open>Math.hypot\<close>.
\<close>

definition outside ::
  "browser \<Rightarrow> int \<times> int \<times> (real \<times> real \<times> real \<times> real \<times> real \<times> real) \<times> nat list \<times> nat \<times> bool
     \<times> (real \<Rightarrow> real \<Rightarrow> real)" where
  "outside b =
     (canvas_width b, canvas_height b, transform b, raf_pending b, raf_next b, ro_observing b,
      math_hypot b)"


fun is_fill :: "effect \<Rightarrow> bool" where
  "is_fill (Filled sp st) = True"
| "is_fill (Cleared cx cy cw ch) = False"
| "is_fill (Stroked sp st lw) = False"
| "is_fill (FrameRequested hdl) = False"

definition frame_effects :: "component \<Rightarrow> effect list" where
  "frame_effects s = drop (length (effects (browser s))) (effects (browser (step s)))"

definition pair_before :: "nat \<times> nat \<Rightarrow> nat \<times> nat \<Rightarrow> bool" where
  "pair_before a b = (fst a < fst b \<or> (fst a = fst b \<and> snd a < snd b))"

subsection \<open>Small concrete inputs\<close>

text \<open>
  States, pages and particles on which the theorems below are evaluated, all in a host
  whose \<open>Math.hypot\<close> is correctly rounded. \<open>demo_rnd\<close> is a \<open>Math.random\<close> that always
  returns one half, \<open>top_rnd\<close> one that always returns the largest double below 1.
  In \<open>near_miss\<close> the two particles are at the distance \<open>120 - 3 / 2 ^ 49\<close>, and the
  difference of their \<open>x\<close> rounds to 120.
\<close>

definition demo_particles :: "particle list" where
  "demo_particles =
     [\<lparr>p_x = 1919 / 16, p_y = - (319 / 16), p_vx = 1 / 8, p_vy = - (1 / 8), p_r = 2\<rparr>,
      \<lparr>p_x = 50, p_y = 50, p_vx = 1 / 8, p_vy = - (1 / 8), p_r = 3 / 2\<rparr>]"

definition demo_browser :: browser where
  "demo_browser = (fresh_browser hypot64)\<lparr>raf_pending := [1], raf_next := 2, ro_observing := True\<rparr>"

definition demo_state :: component where
  "demo_state =
     \<lparr>dpi = 1, w = 100, h = 80, particles = demo_particles, rafRef = 1,
      browser = demo_browser\<rparr>"





definition demo_rnd :: "nat \<Rightarrow> real" where
  "demo_rnd n = 1 / 2"


definition page_1x :: page where
  "page_1x = \<lparr>devicePixelRatio = 1, innerWidth = 1000, innerHeight = 800,
              clientWidth = 800, clientHeight = 600, Math_hypot = hypot64\<rparr>"

definition page_2x :: page where
  "page_2x = \<lparr>devicePixelRatio = 2, innerWidth = 1000, innerHeight = 800,
              clientWidth = 400, clientHeight = 300, Math_hypot = hypot64\<rparr>"

definition page_6_5 :: page where
  "page_6_5 = \<lparr>devicePixelRatio = fl (6 / 5), innerWidth = 1000, innerHeight = 800,
               clientWidth = 5, clientHeight = 10, Math_hypot = hypot64\<rparr>"

definition page_small :: page where
  "page_small = \<lparr>devicePixelRatio = 1, innerWidth = 1000, innerHeight = 800,
                 clientWidth = 100, clientHeight = 100, Math_hypot = hypot64\<rparr>"

definition glow_demo :: particle where
  "glow_demo = \<lparr>p_x = 0, p_y = 0, p_vx = 0, p_vy = 0, p_r = 2\<rparr>"

section \<open>Rounding to doubles\<close>

lemma pow2_powr: "pow2 k = 2 powr (real_of_int k)"
  by (simp add: pow2_def powr_int)

lemma pow2_pos [simp]: "0 < pow2 k"
  by (simp add: pow2_powr)


lemma pow2_mono: "a \<le> b \<Longrightarrow> pow2 a \<le> pow2 b"
  by (simp add: pow2_powr)

lemma round_even_of_int [simp]: "round_even (of_int n) = n"
  by (simp add: round_even_def)





text \<open>The binade of a positive number.\<close>

lemma binade_normal:
  assumes "pow2 k \<le> x" "x < pow2 (k + 1)" "- 1022 \<le> k"
  shows "binade x = k"
proof -
  from assms(1) have "0 < x" using pow2_pos [of k] by linarith
  then have "\<lfloor>log 2 \<bar>x\<bar>\<rfloor> = k"
    using assms by (simp add: floor_log_eq_powr_iff pow2_powr)
  with assms(3) show ?thesis by (simp add: binade_def)
qed

lemma binade_small:
  assumes "0 < x" "x < pow2 (- 1022)"
  shows "binade x = - 1022"
proof -
  have "log 2 x < - 1022"
    using assms by (simp add: pow2_powr log_less_iff)
  then have "\<lfloor>log 2 \<bar>x\<bar>\<rfloor> \<le> - 1022"
    using assms(1) by (simp add: floor_le_iff)
  then show ?thesis by (simp add: binade_def)
qed


lemma binade_mono:
  assumes "0 < x" "x \<le> y"
  shows "binade x \<le> binade y"
proof -
  have "log 2 x \<le> log 2 y" using assms by (simp add: log_mono)
  then have "\<lfloor>log 2 \<bar>x\<bar>\<rfloor> \<le> \<lfloor>log 2 \<bar>y\<bar>\<rfloor>"
    using assms by (simp add: floor_mono)
  then show ?thesis by (auto simp: binade_def)
qed

lemma below_next_binade:
  assumes "0 < x"
  shows "x < pow2 (binade x + 1)"
proof -
  have "x < 2 powr (real_of_int (\<lfloor>log 2 x\<rfloor> + 1))"
    using assms floor_log_eq_powr_iff [of x 2 "\<lfloor>log 2 x\<rfloor>"] by simp
  also have "\<dots> \<le> pow2 (binade x + 1)"
    using assms by (simp add: pow2_powr binade_def)
  finally show ?thesis .
qed

lemma above_binade:
  assumes "0 < x" "- 1022 < binade x"
  shows "pow2 (binade x) \<le> x"
proof -
  from assms(2) have "binade x = \<lfloor>log 2 x\<rfloor>"
    using assms(1) by (simp add: binade_def max_def split: if_splits)
  moreover have "2 powr (real_of_int \<lfloor>log 2 x\<rfloor>) \<le> x"
    using assms(1) floor_log_eq_powr_iff [of x 2 "\<lfloor>log 2 x\<rfloor>"] by simp
  ultimately show ?thesis by (simp add: pow2_powr)
qed







lemma fl_zero [simp]: "fl 0 = 0"
  by (simp add: fl_def fl_pos_def)

lemma fl_minus: "fl (- x) = - fl x"
  by (simp add: fl_def fl_pos_def)


text \<open>Evaluation at a number whose binade is known.\<close>

lemma fl_at:
  assumes "pow2 k \<le> x" "x < pow2 (k + 1)" "- 1022 \<le> k"
  shows "fl x = of_int (round_even (x / pow2 (k - 52))) * pow2 (k - 52)"
proof -
  from assms(1) have "0 < x" using pow2_pos [of k] by linarith
  then show ?thesis
    using binade_normal [OF assms] by (simp add: fl_def fl_pos_def ulp_def)
qed

lemma fl_exact_at:
  assumes "pow2 k \<le> x" "x < pow2 (k + 1)" "- 1022 \<le> k" "x / pow2 (k - 52) \<in> \<int>"
  shows "fl x = x"
proof -
  from assms(4) obtain m where m: "x / pow2 (k - 52) = of_int m"
    by (auto elim: Ints_cases)
  then have "fl x = of_int m * pow2 (k - 52)"
    using fl_at [OF assms(1-3)] by simp
  also have "\<dots> = x"
  proof -
    have "pow2 (k - 52) \<noteq> 0" using pow2_pos [of "k - 52"] by linarith
    then show ?thesis by (simp add: m [symmetric])
  qed
  finally show ?thesis .
qed

section \<open>The loops of one frame\<close>

lemmas browser_defs =
  reset_context_def set_canvas_width_def set_canvas_height_def setTransform_def
  clearRect_def set_strokeStyle_def set_fillStyle_def set_lineWidth_def beginPath_def
  moveTo_def lineTo_def arc_def stroke_def fill_def createRadialGradient_def
  addColorStop_def requestAnimationFrame_def cancelAnimationFrame_def observe_def
  disconnect_def

lemma effects_draw_link: "effects (draw_link hyp p q b) = effects b @ link_effects hyp p q"
  by (simp add: draw_link_def link_effects_def link_dist_def Let_def browser_defs)

lemma outside_draw_link: "outside (draw_link hyp p q b) = outside b"
  by (simp add: draw_link_def outside_def Let_def browser_defs)

lemma fold_effects:
  assumes "\<And>x b. effects (f x b) = effects b @ g x"
  shows "effects (fold f xs b) = effects b @ concat (map g xs)"
  using assms by (induction xs arbitrary: b) simp_all

lemma fold_outside:
  assumes "\<And>x b. outside (f x b) = outside b"
  shows "outside (fold f xs b) = outside b"
  using assms by (induction xs arbitrary: b) simp_all

lemma effects_draw_links_nested:
  "effects (draw_links hyp ps b) =
     effects b @ concat (map (\<lambda>i. concat (map (\<lambda>j. link_effects hyp (ps ! i) (ps ! j))
        [i + 1..<length ps])) [0..<length ps])"
  unfolding draw_links_def
  by (rule fold_effects) (rule fold_effects, rule effects_draw_link)

lemma outside_draw_links: "outside (draw_links hyp ps b) = outside b"
  unfolding draw_links_def
  by (rule fold_outside) (rule fold_outside, rule outside_draw_link)

lemma links_row:
  "concat (map (\<lambda>j. link_effects hyp (ps ! i) (ps ! j)) js)
     = map (link_line hyp ps) (filter (near hyp ps) (map (\<lambda>j. (i, j)) js))"
  by (induction js) (simp_all add: link_effects_def link_line_def near_def)

lemma links_as_pairs:
  "concat (map (\<lambda>i. concat (map (\<lambda>j. link_effects hyp (ps ! i) (ps ! j)) [i + 1..<n])) [0..<n])
     = map (link_line hyp ps) (filter (near hyp ps) (pairs n))"
  unfolding links_row pairs_def
  by (simp add: map_concat filter_concat comp_def)

lemma effects_draw_links:
  "effects (draw_links hyp ps b) =
     effects b @ map (link_line hyp ps) (filter (near hyp ps) (pairs (length ps)))"
  by (simp only: effects_draw_links_nested links_as_pairs)

lemma set_pairs: "set (pairs n) = {(i, j). i < j \<and> j < n}"
  by (force simp: pairs_def)


lemma effects_draw_particle: "effects (draw_particle p b) = effects b @ disc_effects p"
  by (simp add: draw_particle_def disc_effects_def glow_gradient_def Let_def browser_defs)

lemma outside_draw_particle: "outside (draw_particle p b) = outside b"
  by (simp add: draw_particle_def outside_def Let_def browser_defs)

lemma particle_loop:
  assumes "n \<le> length ps"
  shows "fst (fold (step_particle cw ch) [0..<n] (ps, b))
           = map (advance cw ch) (take n ps) @ drop n ps
       \<and> effects (snd (fold (step_particle cw ch) [0..<n] (ps, b)))
           = effects b @ concat (map (\<lambda>p. disc_effects (advance cw ch p)) (take n ps))
       \<and> outside (snd (fold (step_particle cw ch) [0..<n] (ps, b))) = outside b"
  using assms
proof (induction n)
  case 0
  then show ?case by simp
next
  case (Suc n)
  obtain ps1 b1 where f: "fold (step_particle cw ch) [0..<n] (ps, b) = (ps1, b1)"
    by (cases "fold (step_particle cw ch) [0..<n] (ps, b)")
  from Suc have n: "n < length ps" by simp
  from Suc f have ps1: "ps1 = map (advance cw ch) (take n ps) @ drop n ps"
    and e1: "effects b1 = effects b @ concat (map (\<lambda>p. disc_effects (advance cw ch p)) (take n ps))"
    and o1: "outside b1 = outside b"
    by simp_all
  from n have at: "ps1 ! n = ps ! n"
    by (simp add: ps1 nth_append)
  from n have dr: "drop n ps = ps ! n # drop (Suc n) ps"
    by (simp add: Cons_nth_drop_Suc)
  from n have upd: "ps1[n := v] = map (advance cw ch) (take n ps) @ v # drop (Suc n) ps" for v
    by (simp add: ps1 list_update_append dr)
  have st: "fold (step_particle cw ch) [0..<Suc n] (ps, b)
      = (ps1[n := advance cw ch (ps ! n)], draw_particle (advance cw ch (ps ! n)) b1)"
    by (simp add: f step_particle_def at Let_def)
  from n show ?case
    by (simp only: st fst_conv snd_conv upd effects_draw_particle outside_draw_particle e1 o1)
       (simp add: take_Suc_conv_app_nth)
qed

lemma particle_loop_all:
  "fold (step_particle cw ch) [0..<length ps] (ps, b) = (ps', b') \<Longrightarrow>
     ps' = map (advance cw ch) ps
     \<and> effects b' = effects b @ concat (map (\<lambda>p. disc_effects (advance cw ch p)) ps)
     \<and> outside b' = outside b"
  using particle_loop [of "length ps" ps cw ch b] by simp

lemma step_unfold:
  "\<exists>b'. step s = s\<lparr>particles := map (advance (w s) (h s)) (particles s),
                    rafRef := raf_next (browser s),
                    browser := b'\<rparr>
     \<and> effects b' = effects (browser s)
          @ [Cleared 0 0 (real (w s)) (real (h s))]
          @ map (link_line (math_hypot (browser s)) (particles s))
               (filter (near (math_hypot (browser s)) (particles s)) (pairs (length (particles s))))
          @ concat (map (\<lambda>p. disc_effects (advance (w s) (h s) p)) (particles s))
          @ [FrameRequested (raf_next (browser s))]
     \<and> canvas_width b' = canvas_width (browser s)
     \<and> canvas_height b' = canvas_height (browser s)
     \<and> transform b' = transform (browser s)
     \<and> raf_pending b' = raf_pending (browser s) @ [raf_next (browser s)]
     \<and> raf_next b' = raf_next (browser s) + 1
     \<and> ro_observing b' = ro_observing (browser s)
     \<and> math_hypot b' = math_hypot (browser s)"
proof -
  define b1 where "b1 = draw_links (math_hypot (browser s)) (particles s)
      (clearRect 0 0 (real (w s)) (real (h s)) (browser s))"
  obtain ps2 b2 where f: "fold (step_particle (w s) (h s)) [0..<length (particles s)] (particles s, b1) = (ps2, b2)"
    by (cases "fold (step_particle (w s) (h s)) [0..<length (particles s)] (particles s, b1)")
  have e1: "effects b1 = effects (browser s) @ [Cleared 0 0 (real (w s)) (real (h s))]
      @ map (link_line (math_hypot (browser s)) (particles s))
               (filter (near (math_hypot (browser s)) (particles s)) (pairs (length (particles s))))"
    by (simp add: b1_def effects_draw_links clearRect_def)
  have o1: "outside b1 = outside (browser s)"
    by (simp add: b1_def outside_draw_links) (simp add: outside_def clearRect_def)
  note l = particle_loop_all [OF f]
  have st: "step s = s\<lparr>particles := ps2, rafRef := raf_next b2, browser := snd (requestAnimationFrame b2)\<rparr>"
    by (simp add: step_def Let_def clearRect_def b1_def [symmetric, unfolded clearRect_def] f
        requestAnimationFrame_def)
  from l o1 have o2: "outside b2 = outside (browser s)" by simp
  show ?thesis
    apply (rule exI [of _ "snd (requestAnimationFrame b2)"])
    using l e1 o2
    by (simp add: st requestAnimationFrame_def outside_def)
qed

lemma sorted_rows:
  "sorted_wrt pair_before (concat (map (\<lambda>i. map (\<lambda>j. (i, j)) [i + 1..<n]) [a..<n]))"
proof (induction "n - a" arbitrary: a)
  case 0
  then show ?case by simp
next
  case (Suc k)
  then have a: "a < n" and k: "k = n - Suc a" by simp_all
  have row: "sorted_wrt pair_before (map (\<lambda>j. (a, j)) [a + 1..<n])"
    by (simp add: sorted_wrt_map pair_before_def)
  have rest: "sorted_wrt pair_before (concat (map (\<lambda>i. map (\<lambda>j. (i, j)) [i + 1..<n]) [Suc a..<n]))"
    using Suc.hyps(1) [OF k] .
  have cross: "pair_before x y"
    if "x \<in> set (map (\<lambda>j. (a, j)) [a + 1..<n])"
      and "y \<in> set (concat (map (\<lambda>i. map (\<lambda>j. (i, j)) [i + 1..<n]) [Suc a..<n]))" for x y
    using that by (auto simp: pair_before_def)
  from a have "[a..<n] = a # [Suc a..<n]" by (simp add: upt_conv_Cons)
  then show ?case
    using row rest cross by (simp add: sorted_wrt_append del: upt_Suc)
qed

lemma sorted_pairs: "sorted_wrt pair_before (pairs n)"
  unfolding pairs_def by (rule sorted_rows)

section \<open>Fields after each operation\<close>

lemma step_fields:
  "particles (step s) = map (advance (w s) (h s)) (particles s)"
  "w (step s) = w s" "h (step s) = h s" "dpi (step s) = dpi s"
  "rafRef (step s) = raf_next (browser s)"
  "effects (browser (step s)) = effects (browser s)
          @ [Cleared 0 0 (real (w s)) (real (h s))]
          @ map (link_line (math_hypot (browser s)) (particles s))
               (filter (near (math_hypot (browser s)) (particles s)) (pairs (length (particles s))))
          @ concat (map (\<lambda>p. disc_effects (advance (w s) (h s) p)) (particles s))
          @ [FrameRequested (raf_next (browser s))]"
  "canvas_width (browser (step s)) = canvas_width (browser s)"
  "canvas_height (browser (step s)) = canvas_height (browser s)"
  "transform (browser (step s)) = transform (browser s)"
  "raf_pending (browser (step s)) = raf_pending (browser s) @ [raf_next (browser s)]"
  "raf_next (browser (step s)) = raf_next (browser s) + 1"
  "ro_observing (browser (step s)) = ro_observing (browser s)"
  "math_hypot (browser (step s)) = math_hypot (browser s)"
  using step_unfold [of s] by auto

lemma resize_fields:
  "particles (resize pg s) = particles s"
  "w (resize pg s) = clientWidth pg" "h (resize pg s) = clientHeight pg"
  "dpi (resize pg s) = dpi s"
  "rafRef (resize pg s) = rafRef s"
  "effects (browser (resize pg s)) = effects (browser s)"
  "canvas_width (browser (resize pg s)) = \<lfloor>mul64 (real (clientWidth pg)) (dpi s)\<rfloor>"
  "canvas_height (browser (resize pg s)) = \<lfloor>mul64 (real (clientHeight pg)) (dpi s)\<rfloor>"
  "transform (browser (resize pg s)) = (dpi s, 0, 0, dpi s, 0, 0)"
  "raf_pending (browser (resize pg s)) = raf_pending (browser s)"
  "raf_next (browser (resize pg s)) = raf_next (browser s)"
  "ro_observing (browser (resize pg s)) = ro_observing (browser s)"
  "math_hypot (browser (resize pg s)) = math_hypot (browser s)"
  by (simp_all add: resize_def Let_def browser_defs)

lemma unmount_fields:
  "particles (unmount s) = particles s"
  "w (unmount s) = w s" "h (unmount s) = h s" "dpi (unmount s) = dpi s"
  "rafRef (unmount s) = rafRef s"
  "effects (browser (unmount s)) = effects (browser s)"
  "raf_pending (browser (unmount s)) = removeAll (rafRef s) (raf_pending (browser s))"
  "ro_observing (browser (unmount s)) = False"
  "math_hypot (browser (unmount s)) = math_hypot (browser s)"
  by (simp_all add: unmount_def Let_def browser_defs)

lemma mount_eq:
  "mount rnd pg = step (resize pg ((created rnd pg)\<lparr>browser := observe (browser (created rnd pg))\<rparr>))"
  by (simp add: mount_def Let_def)

lemma mount_fields:
  "particles (mount rnd pg) = map (advance (clientWidth pg) (clientHeight pg)) (init_particles rnd pg)"
  "w (mount rnd pg) = clientWidth pg" "h (mount rnd pg) = clientHeight pg"
  "dpi (mount rnd pg) = read_dpi pg"
  "raf_pending (browser (mount rnd pg)) = [rafRef (mount rnd pg)]"
  "ro_observing (browser (mount rnd pg)) = True"
  "math_hypot (browser (mount rnd pg)) = Math_hypot pg"
  by (simp_all add: mount_eq step_fields resize_fields)
     (simp_all add: created_def fresh_browser_def observe_def)

lemma animation_frame_one:
  "raf_pending (browser s) = [hdl] \<Longrightarrow>
     animation_frame s = step (s\<lparr>browser := (browser s)\<lparr>raf_pending := []\<rparr>\<rparr>)"
  by (simp add: animation_frame_def)

lemma run_snoc: "run (evs @ [ev]) s = dispatch ev (run evs s)"
  by (simp add: run_def)

lemma run_Nil: "run [] s = s"
  by (simp add: run_def)

lemma advance_fields:
  "p_vx (advance cw ch p) = p_vx p" "p_vy (advance cw ch p) = p_vy p"
  "p_r (advance cw ch p) = p_r p"
  by (simp_all add: advance_def Let_def)

lemma advance_x:
  "p_x (advance cw ch p) =
     (if add64 (p_x p) (p_vx p) < - 20 then real cw + 20
      else if real cw + 20 < add64 (p_x p) (p_vx p) then - 20
      else add64 (p_x p) (p_vx p))"
  by (simp add: advance_def Let_def)

lemma advance_y:
  "p_y (advance cw ch p) =
     (if add64 (p_y p) (p_vy p) < - 20 then real ch + 20
      else if real ch + 20 < add64 (p_y p) (p_vy p) then - 20
      else add64 (p_y p) (p_vy p))"
  by (simp add: advance_def Let_def)

text \<open>What holds of a mounted component whatever the browser has delivered so far.\<close>

lemma mounted:
  "raf_pending (browser (run evs (mount rnd pg))) = [rafRef (run evs (mount rnd pg))]
   \<and> ro_observing (browser (run evs (mount rnd pg)))
   \<and> dpi (run evs (mount rnd pg)) = read_dpi pg
   \<and> length (particles (run evs (mount rnd pg))) = 36
   \<and> map p_vx (particles (run evs (mount rnd pg))) = map p_vx (init_particles rnd pg)
   \<and> map p_vy (particles (run evs (mount rnd pg))) = map p_vy (init_particles rnd pg)
   \<and> map p_r (particles (run evs (mount rnd pg))) = map p_r (init_particles rnd pg)
   \<and> math_hypot (browser (run evs (mount rnd pg))) = Math_hypot pg"
proof (induction evs rule: rev_induct)
  case Nil
  show ?case
    by (simp add: run_Nil mount_fields comp_def advance_fields) (simp add: init_particles_def)
next
  case (snoc ev evs)
  define t where "t = run evs (mount rnd pg)"
  from snoc have t: "raf_pending (browser t) = [rafRef t]" "ro_observing (browser t)"
    "dpi t = read_dpi pg" "length (particles t) = 36"
    "map p_vx (particles t) = map p_vx (init_particles rnd pg)"
    "map p_vy (particles t) = map p_vy (init_particles rnd pg)"
    "map p_r (particles t) = map p_r (init_particles rnd pg)"
    "math_hypot (browser t) = Math_hypot pg"
    by (simp_all add: t_def)
  show ?case
  proof (cases ev)
    case AnimationFrame
    have "dispatch ev t = step (t\<lparr>browser := (browser t)\<lparr>raf_pending := []\<rparr>\<rparr>)"
      using t(1) by (simp add: AnimationFrame animation_frame_one)
    with t show ?thesis
      by (simp add: run_snoc t_def [symmetric] step_fields comp_def advance_fields)
  next
    case (ResizeNotify pg')
    with t show ?thesis
      by (simp add: run_snoc t_def [symmetric] resize_fields)
  qed
qed


lemma fills_of_links: "filter is_fill (map (link_line hyp ps) xs) = []"
  by (induction xs) (auto simp: link_line_def)

lemma fills_of_discs:
  "filter is_fill (concat (map (\<lambda>p. disc_effects (f p)) ps)) = concat (map (\<lambda>p. disc_effects (f p)) ps)"
  by (induction ps) (simp_all add: disc_effects_def)


lemma frame_effects_eq:
  "frame_effects s =
     [Cleared 0 0 (real (w s)) (real (h s))]
     @ map (link_line (math_hypot (browser s)) (particles s))
               (filter (near (math_hypot (browser s)) (particles s)) (pairs (length (particles s))))
     @ concat (map (\<lambda>p. disc_effects (advance (w s) (h s) p)) (particles s))
     @ [FrameRequested (raf_next (browser s))]"
  by (simp add: frame_effects_def step_fields)



lemma dispatch_resize_mounted:
  "dispatch (ResizeNotify pg') (run evs (mount rnd pg)) = resize pg' (run evs (mount rnd pg))"
  using mounted [of evs rnd pg] by simp

lemma radial_alpha_glow:
  "0 \<le> d \<Longrightarrow> d \<le> 16 \<Longrightarrow> radial_alpha (glow_gradient cx cy) d = 0.55 * (1 - d / 16)"
  by (auto simp: radial_alpha_def glow_gradient_def algebra_simps)

lemma init_particles_nth: "k < 36 \<Longrightarrow> init_particles rnd pg ! k = new_particle rnd pg k"
  by (simp add: init_particles_def)

lemma length_init_particles: "length (init_particles rnd pg) = 36"
  by (simp add: init_particles_def)

section \<open>Exact doubles, concrete values and ranges\<close>

lemma binade_one: "binade 1 = 0"
  by (rule binade_normal) (simp_all add: pow2_def)

lemma pow2_less_cancel: "pow2 a < pow2 b \<Longrightarrow> a < b"
  using pow2_mono [of b a] by (cases "a < b") auto

lemma fl_of_nat:
  assumes "n < 2 ^ 53"
  shows "fl (real n) = real n"
proof (cases "n = 0")
  case True
  then show ?thesis by simp
next
  case False
  define k where "k = binade (real n)"
  from False have pos: "0 < real n" and one: "1 \<le> real n" by simp_all
  have k0: "0 \<le> k"
    using binade_mono [of 1 "real n"] one by (simp add: k_def binade_one)
  then have lo: "pow2 k \<le> real n"
    using above_binade [OF pos] by (simp add: k_def)
  have hi: "real n < pow2 (k + 1)"
    using below_next_binade [OF pos] by (simp add: k_def)
  have "real n < pow2 53"
    using assms by (simp add: pow2_def)
  with lo have "pow2 k < pow2 53" by linarith
  then have k52: "k \<le> 52" using pow2_less_cancel [of k 53] by simp
  have "real n / pow2 (k - 52) = of_int (int n * 2 ^ nat (52 - k))"
    using k52 by (simp add: pow2_def)
  then have "real n / pow2 (k - 52) \<in> \<int>"
    by (simp only: Ints_of_int)
  with lo hi k0 show ?thesis
    by (intro fl_exact_at [where k = k]) simp_all
qed

lemma fl_numeral: "numeral n < (2::nat) ^ 53 \<Longrightarrow> fl (numeral n) = numeral n"
  using fl_of_nat [of "numeral n"] by simp

lemmas arith64 = add64_def sub64_def mul64_def div64_def

lemma demo_sums:
  "add64 (1919 / 16) (1 / 8) = 1921 / 16"
  "add64 (- (319 / 16)) (- (1 / 8)) = - (321 / 16)"
  "add64 50 (1 / 8) = 401 / 8"
  "add64 50 (- (1 / 8)) = 399 / 8"
  by (simp_all add: arith64 fl_minus fl_at [where k = 6] fl_at [where k = 4]
      fl_at [where k = 5] pow2_def round_even_def)

lemma created_particle_demo:
  "p_x (particles (created demo_rnd page_small) ! 0) = 500"
  "p_y (particles (created demo_rnd page_small) ! 0) = 400"
  "p_vx (particles (created demo_rnd page_small) ! 0) = 0"
  "p_vy (particles (created demo_rnd page_small) ! 0) = 0"
  by (simp_all add: created_def init_particles_nth new_particle_def demo_rnd_def page_small_def
      arith64 fl_numeral)






lemma fills_of_frame:
  "filter is_fill (frame_effects s) = concat (map disc_effects (particles (step s)))"
  by (simp add: frame_effects_eq fills_of_links fills_of_discs step_fields comp_def)

lemma demo_radii: "mul64 2 5 = 10" "mul64 (3 / 2) 5 = 15 / 2"
  by (simp_all add: arith64 fl_numeral fl_at [where k = 2] pow2_def round_even_def)

lemma demo_step_particles:
  "particles (step demo_state) =
     [\<lparr>p_x = - 20, p_y = 100, p_vx = 1 / 8, p_vy = - (1 / 8), p_r = 2\<rparr>,
      \<lparr>p_x = 401 / 8, p_y = 399 / 8, p_vx = 1 / 8, p_vy = - (1 / 8), p_r = 3 / 2\<rparr>]"
  by (simp add: step_fields demo_state_def demo_particles_def advance_def Let_def demo_sums)


lemma fl_literals:
  "fl (6 / 5) = 5404319552844595 / 2 ^ 52"
  "fl (9 / 5) = 8106479329266893 / 2 ^ 52"
  by (simp_all add: fl_at [where k = 0] pow2_def round_even_def)

lemma fl_fixed:
  "fl (1 / 2 - 1 / 2 ^ 53) = 1 / 2 - 1 / 2 ^ 53"
  "fl (1 / 2) = 1 / 2"
  "fl (1 / 8) = 1 / 8"
  "fl (1 / 8 - 1 / 2 ^ 55) = 1 / 8 - 1 / 2 ^ 55"
  "fl (5404319552844595 / 2 ^ 52) = 5404319552844595 / 2 ^ 52"
  "fl (8106479329266893 / 2 ^ 52) = 8106479329266893 / 2 ^ 52"
  "fl (1 - 1 / 2 ^ 53) = 1 - 1 / 2 ^ 53"
  by (simp_all add: fl_at [where k = "- 2"] fl_at [where k = "- 1"] fl_at [where k = "- 3"]
      fl_at [where k = "- 4"] fl_at [where k = 0] pow2_def round_even_def)







section \<open>The claims\<close>

text \<open>
  Claim C1. After the position update of a frame every particle has its \<open>x\<close> within
  \<open>[-20, w + 20]\<close> and its \<open>y\<close> within \<open>[-20, h + 20]\<close>. A coordinate that the
  velocity carries beyond \<open>w + 20\<close> (\<open>h + 20\<close>) becomes exactly \<open>-20\<close>, one carried below
  \<open>-20\<close> becomes exactly \<open>w + 20\<close> (\<open>h + 20\<close>), and any other is the old coordinate plus
  the velocity (their sum as a double): wrapped, never clamped, never reflected.
\<close>

theorem wraparound_after_update:
  "(\<forall>p \<in> set (particles (step s)).
      - 20 \<le> p_x p \<and> p_x p \<le> real (w s) + 20 \<and> - 20 \<le> p_y p \<and> p_y p \<le> real (h s) + 20)
   \<and> (\<forall>i < length (particles s).
        p_x (particles (step s) ! i) =
          (if real (w s) + 20 < add64 (p_x (particles s ! i)) (p_vx (particles s ! i)) then - 20
           else if add64 (p_x (particles s ! i)) (p_vx (particles s ! i)) < - 20 then real (w s) + 20
           else add64 (p_x (particles s ! i)) (p_vx (particles s ! i)))
      \<and> p_y (particles (step s) ! i) =
          (if real (h s) + 20 < add64 (p_y (particles s ! i)) (p_vy (particles s ! i)) then - 20
           else if add64 (p_y (particles s ! i)) (p_vy (particles s ! i)) < - 20 then real (h s) + 20
           else add64 (p_y (particles s ! i)) (p_vy (particles s ! i))))"
proof (intro conjI ballI allI impI)
  fix p assume "p \<in> set (particles (step s))"
  then obtain q where p: "p = advance (w s) (h s) q"
    by (auto simp: step_fields)
  show "- 20 \<le> p_x p" "p_x p \<le> real (w s) + 20"
    by (simp_all add: p advance_x)
  show "- 20 \<le> p_y p" "p_y p \<le> real (h s) + 20"
    by (simp_all add: p advance_y)
next
  fix i assume "i < length (particles s)"
  then show "p_x (particles (step s) ! i) =
          (if real (w s) + 20 < add64 (p_x (particles s ! i)) (p_vx (particles s ! i)) then - 20
           else if add64 (p_x (particles s ! i)) (p_vx (particles s ! i)) < - 20 then real (w s) + 20
           else add64 (p_x (particles s ! i)) (p_vx (particles s ! i)))"
    by (simp add: step_fields advance_x)
next
  fix i assume "i < length (particles s)"
  then show "p_y (particles (step s) ! i) =
          (if real (h s) + 20 < add64 (p_y (particles s ! i)) (p_vy (particles s ! i)) then - 20
           else if add64 (p_y (particles s ! i)) (p_vy (particles s ! i)) < - 20 then real (h s) + 20
           else add64 (p_y (particles s ! i)) (p_vy (particles s ! i)))"
    by (simp add: step_fields advance_y)
qed

theorem wraparound_after_update_witness:
  "p_x (particles (step demo_state) ! 0) = - 20
   \<and> p_y (particles (step demo_state) ! 0) = 100
   \<and> p_x (particles (step demo_state) ! 1) = 401 / 8
   \<and> p_y (particles (step demo_state) ! 1) = 399 / 8
   \<and> - 20 \<le> p_x (particles (step demo_state) ! 1)
   \<and> p_x (particles (step demo_state) ! 1) \<le> 120"
proof -
  have len: "length (particles demo_state) = 2"
    by (simp add: demo_state_def demo_particles_def)
  have mem: "particles (step demo_state) ! 1 \<in> set (particles (step demo_state))"
    by (rule nth_mem) (simp add: step_fields len)
  have wh: "w demo_state = 100" "h demo_state = 80"
    by (simp_all add: demo_state_def)
  have p0: "particles demo_state ! 0
      = \<lparr>p_x = 1919 / 16, p_y = - (319 / 16), p_vx = 1 / 8, p_vy = - (1 / 8), p_r = 2\<rparr>"
    and p1: "particles demo_state ! Suc 0
      = \<lparr>p_x = 50, p_y = 50, p_vx = 1 / 8, p_vy = - (1 / 8), p_r = 3 / 2\<rparr>"
    by (simp_all add: demo_state_def demo_particles_def)
  note t = wraparound_after_update [of demo_state]
  from t have a: "p_x (particles (step demo_state) ! 0) = - 20 \<and> p_y (particles (step demo_state) ! 0) = 100"
    using len by (simp add: wh p0 demo_sums)
  from t have b: "p_x (particles (step demo_state) ! 1) = 401 / 8
      \<and> p_y (particles (step demo_state) ! 1) = 399 / 8"
    using len by (simp add: wh p1 demo_sums)
  from t mem have c: "- 20 \<le> p_x (particles (step demo_state) ! 1) \<and> p_x (particles (step demo_state) ! 1) \<le> 120"
    by (auto simp: wh)
  from a b c show ?thesis by simp
qed




text \<open>
  Claim C3. Mount creates 36 particles, and the array has 36 particles after every
  sequence of animation frames and resize notifications, and after unmount; no operation
  changes its length.
\<close>

theorem particle_count:
  "length (particles (mount rnd pg)) = 36
   \<and> length (particles (run evs (mount rnd pg))) = 36
   \<and> length (particles (unmount (run evs (mount rnd pg)))) = 36
   \<and> length (particles (step s)) = length (particles s)
   \<and> length (particles (resize pg' s)) = length (particles s)
   \<and> length (particles (dispatch ev s)) = length (particles s)"
proof -
  have st: "length (particles (step t)) = length (particles t)" for t
    by (simp add: step_fields)
  have fr: "length (particles (fold (\<lambda>hdl. step) hs t)) = length (particles t)" for hs t
    by (induction hs arbitrary: t) (simp_all add: st)
  have "length (particles (dispatch ev s)) = length (particles s)"
    by (cases ev) (simp_all add: animation_frame_def resize_fields fr)
  moreover have "length (particles (mount rnd pg)) = 36"
    using mounted [of "[]" rnd pg] by (simp add: run_Nil)
  ultimately show ?thesis
    using mounted [of evs rnd pg] by (simp add: unmount_fields st resize_fields)
qed

text \<open>
  Claim C4. The effects of one frame, in order: the clearing of the logical area
  \<open>w\<close> by \<open>h\<close>; the lines of the near pairs (those whose \<open>Math.hypot\<close> is below
  120), at the positions the frame starts with, the pairs \<open>i < j\<close> in lexicographic
  order; the two discs of each particle in array order, at the positions the frame has
  moved them to; and last the request of the next frame, whose handle the component
  keeps.
\<close>

theorem frame_order:
  "effects (browser (step s)) =
     effects (browser s)
     @ [Cleared 0 0 (real (w s)) (real (h s))]
     @ map (link_line (math_hypot (browser s)) (particles s))
         (filter (near (math_hypot (browser s)) (particles s)) (pairs (length (particles s))))
     @ concat (map disc_effects (particles (step s)))
     @ [FrameRequested (raf_next (browser s))]
   \<and> particles (step s) = map (advance (w s) (h s)) (particles s)
   \<and> sorted_wrt pair_before (pairs (length (particles s)))
   \<and> set (pairs (length (particles s))) = {(i, j). i < j \<and> j < length (particles s)}
   \<and> raf_pending (browser (step s)) = raf_pending (browser s) @ [raf_next (browser s)]
   \<and> rafRef (step s) = raf_next (browser s)"
  using sorted_pairs set_pairs by (simp add: step_fields comp_def)

text \<open>
  Claim C5, as stated, fails: the device pixel ratio is read once, when the effect runs,
  and \<open>resize\<close> uses that value. A component mounted at ratio 1 and then notified of
  a 400 by 300 box on a page whose ratio is now 2 gets a 400 by 300 buffer and the
  transform of scale 1, not 800 by 600 and scale 2.
\<close>

theorem resize_rereads_ratio_counterexample:
  "devicePixelRatio page_2x = 2
   \<and> clientWidth page_2x = 400
   \<and> clientHeight page_2x = 300
   \<and> canvas_width (browser (dispatch (ResizeNotify page_2x) (mount demo_rnd page_1x))) = 400
   \<and> canvas_height (browser (dispatch (ResizeNotify page_2x) (mount demo_rnd page_1x))) = 300
   \<and> transform (browser (dispatch (ResizeNotify page_2x) (mount demo_rnd page_1x)))
       = (1, 0, 0, 1, 0, 0)"
proof -
  have d: "dpi (mount demo_rnd page_1x) = 1"
    by (simp add: mount_fields read_dpi_def page_1x_def)
  have "dispatch (ResizeNotify page_2x) (mount demo_rnd page_1x)
      = resize page_2x (mount demo_rnd page_1x)"
    using dispatch_resize_mounted [of page_2x "[]" demo_rnd page_1x] by (simp add: run_Nil)
  then show ?thesis
    by (simp add: resize_fields d) (simp add: page_2x_def arith64 fl_numeral)
qed

text \<open>
  Claim C5, amended. On every resize notification a mounted component takes the logical
  width and height from the client box of the canvas, sets the backing buffer to the
  floor of the product of the logical size and \<open>dpi\<close> (the product as a double, so
  that 5 at the ratio 1.2 gives 6), and sets the transform to the scaling by
  \<open>dpi\<close>, which the following frame leaves in place; \<open>dpi\<close> is the value read when the
  component was mounted, \<open>max 1 ratio\<close> (1 for a ratio of 0), not a value read again.
\<close>

theorem resize_surface:
  "w (dispatch (ResizeNotify pg') (run evs (mount rnd pg))) = clientWidth pg'
   \<and> h (dispatch (ResizeNotify pg') (run evs (mount rnd pg))) = clientHeight pg'
   \<and> dpi (dispatch (ResizeNotify pg') (run evs (mount rnd pg))) = read_dpi pg
   \<and> read_dpi pg = max 1 (if devicePixelRatio pg = 0 then 1 else devicePixelRatio pg)
   \<and> canvas_width (browser (dispatch (ResizeNotify pg') (run evs (mount rnd pg))))
       = \<lfloor>mul64 (real (clientWidth pg')) (read_dpi pg)\<rfloor>
   \<and> canvas_height (browser (dispatch (ResizeNotify pg') (run evs (mount rnd pg))))
       = \<lfloor>mul64 (real (clientHeight pg')) (read_dpi pg)\<rfloor>
   \<and> transform (browser (dispatch (ResizeNotify pg') (run evs (mount rnd pg))))
       = (read_dpi pg, 0, 0, read_dpi pg, 0, 0)
   \<and> transform (browser (step (dispatch (ResizeNotify pg') (run evs (mount rnd pg)))))
       = (read_dpi pg, 0, 0, read_dpi pg, 0, 0)
   \<and> particles (dispatch (ResizeNotify pg') (run evs (mount rnd pg)))
       = particles (run evs (mount rnd pg))"
  using mounted [of evs rnd pg]
  by (simp only: dispatch_resize_mounted resize_fields step_fields) (simp add: read_dpi_def)

theorem resize_surface_witness:
  "canvas_width (browser (dispatch (ResizeNotify page_2x) (run [AnimationFrame] (mount demo_rnd page_2x)))) = 800
   \<and> canvas_height (browser (dispatch (ResizeNotify page_2x) (run [AnimationFrame] (mount demo_rnd page_2x)))) = 600
   \<and> w (dispatch (ResizeNotify page_2x) (run [AnimationFrame] (mount demo_rnd page_2x))) = 400
   \<and> h (dispatch (ResizeNotify page_2x) (run [AnimationFrame] (mount demo_rnd page_2x))) = 300
   \<and> transform (browser (dispatch (ResizeNotify page_2x) (run [AnimationFrame] (mount demo_rnd page_2x))))
       = (2, 0, 0, 2, 0, 0)
   \<and> canvas_width (browser (dispatch (ResizeNotify page_6_5) (mount demo_rnd page_6_5))) = 6
   \<and> canvas_height (browser (dispatch (ResizeNotify page_6_5) (mount demo_rnd page_6_5))) = 12"
proof -
  have b: "read_dpi page_6_5 = 5404319552844595 / 2 ^ 52"
    by (simp add: read_dpi_def page_6_5_def fl_literals)
  have c: "real (clientWidth page_6_5) = 5" "real (clientHeight page_6_5) = 10"
    by (simp_all add: page_6_5_def)
  have d: "mul64 5 (5404319552844595 / 2 ^ 52) = 6" "mul64 10 (5404319552844595 / 2 ^ 52) = 12"
    by (simp_all add: arith64 fl_at [where k = 2] fl_at [where k = 3] pow2_def round_even_def)
  have e: "\<lfloor>mul64 (real (clientWidth page_6_5)) (read_dpi page_6_5)\<rfloor> = 6"
    "\<lfloor>mul64 (real (clientHeight page_6_5)) (read_dpi page_6_5)\<rfloor> = 12"
    by (simp_all only: b c d) simp_all
  have f: "read_dpi page_2x = 2" "clientWidth page_2x = 400" "clientHeight page_2x = 300"
    "\<lfloor>mul64 (real (400::nat)) 2\<rfloor> = 800"
    "\<lfloor>mul64 (real (300::nat)) 2\<rfloor> = 600"
    by (simp_all add: read_dpi_def page_2x_def arith64 fl_numeral)
  from resize_surface [of page_6_5 "[]" demo_rnd page_6_5]
  have "canvas_width (browser (dispatch (ResizeNotify page_6_5) (mount demo_rnd page_6_5))) = 6
      \<and> canvas_height (browser (dispatch (ResizeNotify page_6_5) (mount demo_rnd page_6_5))) = 12"
    by (simp only: run_Nil e)
  with resize_surface [of page_2x "[AnimationFrame]" demo_rnd page_2x] show ?thesis
    by (simp only: f)
qed

text \<open>
  Claim C6. Unmount of a mounted component, whatever frames and resize notifications
  came before, leaves no frame pending and no observer attached; from then on no event
  the browser can deliver changes the component or draws anything. (Every run of
  \<open>step\<close> adds to the effects, so none has run.)
\<close>

theorem no_frame_after_unmount:
  "raf_pending (browser (unmount (run evs (mount rnd pg)))) = []
   \<and> \<not> ro_observing (browser (unmount (run evs (mount rnd pg))))
   \<and> run evs' (unmount (run evs (mount rnd pg))) = unmount (run evs (mount rnd pg))
   \<and> effects (browser (run evs' (unmount (run evs (mount rnd pg)))))
       = effects (browser (run evs (mount rnd pg)))
   \<and> effects (browser (step s)) \<noteq> effects (browser s)"
proof -
  define u where "u = unmount (run evs (mount rnd pg))"
  have p: "raf_pending (browser u) = []" and o: "\<not> ro_observing (browser u)"
    using mounted [of evs rnd pg] by (simp_all add: u_def unmount_fields)
  have idle: "dispatch ev u = u" for ev
    using p o by (cases ev) (simp_all add: animation_frame_def)
  have "run evs' u = u"
    by (induction evs' rule: rev_induct) (simp_all add: run_Nil run_snoc idle)
  moreover have "effects (browser u) = effects (browser (run evs (mount rnd pg)))"
    by (simp add: u_def unmount_fields)
  moreover have "effects (browser (step s)) \<noteq> effects (browser s)"
    by (simp add: step_fields)
  ultimately show ?thesis
    using p o by (simp add: u_def)
qed

text \<open>
  Claim C7. The velocities and the radius of every particle are, after any sequence of
  frames and resize notifications, those it was created with. A frame replaces each
  particle by its \<open>advance\<close>, once, which keeps velocity and radius; resize and unmount
  leave the particles as they are.
\<close>

theorem velocity_radius_constant:
  "map p_vx (particles (run evs (mount rnd pg))) = map p_vx (init_particles rnd pg)
   \<and> map p_vy (particles (run evs (mount rnd pg))) = map p_vy (init_particles rnd pg)
   \<and> map p_r (particles (run evs (mount rnd pg))) = map p_r (init_particles rnd pg)
   \<and> particles (dispatch AnimationFrame (run evs (mount rnd pg)))
       = map (advance (w (run evs (mount rnd pg))) (h (run evs (mount rnd pg))))
           (particles (run evs (mount rnd pg)))
   \<and> particles (step s) = map (advance (w s) (h s)) (particles s)
   \<and> p_vx (advance cw ch p) = p_vx p
   \<and> p_vy (advance cw ch p) = p_vy p
   \<and> p_r (advance cw ch p) = p_r p
   \<and> particles (resize pg' s) = particles s
   \<and> particles (unmount s) = particles s"
proof -
  define t where "t = run evs (mount rnd pg)"
  have "raf_pending (browser t) = [rafRef t]"
    using mounted [of evs rnd pg] by (simp add: t_def)
  then have "dispatch AnimationFrame t = step (t\<lparr>browser := (browser t)\<lparr>raf_pending := []\<rparr>\<rparr>)"
    by (simp add: animation_frame_one)
  then have "particles (dispatch AnimationFrame t) = map (advance (w t) (h t)) (particles t)"
    by (simp add: step_fields)
  then show ?thesis
    using mounted [of evs rnd pg]
    by (simp add: t_def step_fields advance_fields resize_fields unmount_fields)
qed

text \<open>
  Claim C8, as stated, fails: the gradient that fills the glow ends (is fully
  transparent) at the fixed radius 16, not at the edge of the disc. For a particle of
  radius 2 the disc has radius 10, and at its edge the violet still has opacity
  \<open>0.55 * (1 - 10 / 16) = 33 / 160\<close>.
\<close>

theorem glow_transparent_at_edge_counterexample:
  "effects (draw_particle glow_demo (fresh_browser hypot64)) =
     [Filled [Arc 0 0 10 0 (mul64 Math_PI 2)]
        (Gradient \<lparr>g_x0 = 0, g_y0 = 0, g_r0 = 0, g_x1 = 0, g_y1 = 0, g_r1 = 16,
                   g_stops = [(0, RGBA 124 58 237 0.55), (1, RGBA 124 58 237 0)]\<rparr>),
      Filled [Arc 0 0 2 0 (mul64 Math_PI 2)] (Color (RGBA 0 194 255 0.9))]
   \<and> radial_alpha \<lparr>g_x0 = 0, g_y0 = 0, g_r0 = 0, g_x1 = 0, g_y1 = 0, g_r1 = 16,
                    g_stops = [(0, RGBA 124 58 237 0.55), (1, RGBA 124 58 237 0)]\<rparr> 10
       = 33 / 160
   \<and> radial_alpha \<lparr>g_x0 = 0, g_y0 = 0, g_r0 = 0, g_x1 = 0, g_y1 = 0, g_r1 = 16,
                    g_stops = [(0, RGBA 124 58 237 0.55), (1, RGBA 124 58 237 0)]\<rparr> 10
       \<noteq> 0"
  by (simp add: effects_draw_particle disc_effects_def glow_gradient_def glow_demo_def
      fresh_browser_def radial_alpha_def demo_radii)

text \<open>
  Claim C8, amended. Among the effects of one frame, the filled paths are exactly two
  discs for each particle, in array order, at the position the frame has moved the
  particle to (each round of the particle loop moves the particle, then draws it): first
  a disc of 5 times the particle's radius (the product as a double) filled with a radial
  gradient centred at the particle, from violet \<open>rgba(124, 58, 237, 0.55)\<close> at the centre
  to transparent at the fixed distance 16 (opacity \<open>0.55 * (1 - d / 16)\<close> at distance
  \<open>d\<close>, so not yet transparent at the edge of the disc), then a disc of the particle's
  radius in \<open>rgba(0, 194, 255, 0.9)\<close>.
\<close>

theorem glow_and_core:
  "filter is_fill (frame_effects s) =
     concat (map (\<lambda>q. [Filled [Arc (p_x q) (p_y q) (mul64 (p_r q) 5) 0 (mul64 Math_PI 2)]
                          (Gradient (glow_gradient (p_x q) (p_y q))),
                        Filled [Arc (p_x q) (p_y q) (p_r q) 0 (mul64 Math_PI 2)]
                          (Color (RGBA 0 194 255 0.9))])
               (particles (step s)))
   \<and> frame_effects s = drop (length (effects (browser s))) (effects (browser (step s)))
   \<and> particles (step s) = map (advance (w s) (h s)) (particles s)
   \<and> step_particle cw ch i (ps, b) =
        (ps[i := advance cw ch (ps ! i)], draw_particle (advance cw ch (ps ! i)) b)
   \<and> effects (draw_particle p b) =
        effects b
        @ [Filled [Arc (p_x p) (p_y p) (mul64 (p_r p) 5) 0 (mul64 Math_PI 2)]
             (Gradient (glow_gradient (p_x p) (p_y p))),
           Filled [Arc (p_x p) (p_y p) (p_r p) 0 (mul64 Math_PI 2)] (Color (RGBA 0 194 255 0.9))]
   \<and> glow_gradient cx cy =
        \<lparr>g_x0 = cx, g_y0 = cy, g_r0 = 0, g_x1 = cx, g_y1 = cy, g_r1 = 16,
         g_stops = [(0, RGBA 124 58 237 0.55), (1, RGBA 124 58 237 0)]\<rparr>
   \<and> (0 \<le> d \<and> d \<le> 16 \<longrightarrow> radial_alpha (glow_gradient cx cy) d = 0.55 * (1 - d / 16))"
proof -
  have "filter is_fill (frame_effects s) =
     concat (map (\<lambda>q. [Filled [Arc (p_x q) (p_y q) (mul64 (p_r q) 5) 0 (mul64 Math_PI 2)]
                          (Gradient (glow_gradient (p_x q) (p_y q))),
                        Filled [Arc (p_x q) (p_y q) (p_r q) 0 (mul64 Math_PI 2)]
                          (Color (RGBA 0 194 255 0.9))])
               (particles (step s)))"
    unfolding fills_of_frame disc_effects_def ..
  moreover have "frame_effects s = drop (length (effects (browser s))) (effects (browser (step s)))"
    by (simp add: frame_effects_def)
  moreover have "step_particle cw ch i (ps, b) =
        (ps[i := advance cw ch (ps ! i)], draw_particle (advance cw ch (ps ! i)) b)"
    by (simp add: step_particle_def Let_def)
  moreover have "effects (draw_particle p b) =
        effects b
        @ [Filled [Arc (p_x p) (p_y p) (mul64 (p_r p) 5) 0 (mul64 Math_PI 2)]
             (Gradient (glow_gradient (p_x p) (p_y p))),
           Filled [Arc (p_x p) (p_y p) (p_r p) 0 (mul64 Math_PI 2)] (Color (RGBA 0 194 255 0.9))]"
    by (simp add: effects_draw_particle disc_effects_def)
  moreover have "0 \<le> d \<and> d \<le> 16 \<longrightarrow> radial_alpha (glow_gradient cx cy) d = 0.55 * (1 - d / 16)"
    using radial_alpha_glow [of d cx cy] by simp
  ultimately show ?thesis
    by (simp only: step_fields glow_gradient_def simp_thms)
qed

theorem glow_and_core_witness:
  "filter is_fill (frame_effects demo_state) =
     [Filled [Arc (- 20) 100 10 0 (mul64 Math_PI 2)] (Gradient (glow_gradient (- 20) 100)),
      Filled [Arc (- 20) 100 2 0 (mul64 Math_PI 2)] (Color (RGBA 0 194 255 0.9)),
      Filled [Arc (401 / 8) (399 / 8) (15 / 2) 0 (mul64 Math_PI 2)]
        (Gradient (glow_gradient (401 / 8) (399 / 8))),
      Filled [Arc (401 / 8) (399 / 8) (3 / 2) 0 (mul64 Math_PI 2)] (Color (RGBA 0 194 255 0.9))]
   \<and> radial_alpha (glow_gradient 3 4) 0 = 0.55
   \<and> radial_alpha (glow_gradient 3 4) 8 = 0.275
   \<and> radial_alpha (glow_gradient 3 4) 16 = 0"
proof -
  have a: "radial_alpha (glow_gradient 3 4) d = 0.55 * (1 - d / 16)" if "0 \<le> d" "d \<le> 16" for d
    using glow_and_core [where cx = 3 and cy = 4 and d = d, THEN conjunct2, THEN conjunct2,
        THEN conjunct2, THEN conjunct2, THEN conjunct2, THEN conjunct2] that
    by simp
  have "filter is_fill (frame_effects demo_state) =
     [Filled [Arc (- 20) 100 10 0 (mul64 Math_PI 2)] (Gradient (glow_gradient (- 20) 100)),
      Filled [Arc (- 20) 100 2 0 (mul64 Math_PI 2)] (Color (RGBA 0 194 255 0.9)),
      Filled [Arc (401 / 8) (399 / 8) (15 / 2) 0 (mul64 Math_PI 2)]
        (Gradient (glow_gradient (401 / 8) (399 / 8))),
      Filled [Arc (401 / 8) (399 / 8) (3 / 2) 0 (mul64 Math_PI 2)] (Color (RGBA 0 194 255 0.9))]"
    using glow_and_core [of demo_state, THEN conjunct1]
    by (simp add: demo_step_particles demo_radii)
  then show ?thesis
    using a [of 0] a [of 8] a [of 16] by simp
qed




text \<open>
  Claim C10. A new particle is placed by the inner size of the window, not by the size
  of the canvas, so before the first frame it can lie outside the box
  \<open>[-20, w + 20]\<close> by \<open>[-20, h + 20]\<close> of the canvas (there are inputs where it does). The
  first frame, which the effect runs itself, puts every particle inside the box: a
  coordinate that is out of range once the velocity is added (as a double sum) goes to
  the opposite margin.
\<close>

theorem initial_positions_and_first_update:
  "(\<forall>k < 36. p_x (particles (created rnd pg) ! k) = mul64 (rnd (5 * k)) (real (innerWidth pg))
             \<and> p_y (particles (created rnd pg) ! k) = mul64 (rnd (5 * k + 1)) (real (innerHeight pg)))
   \<and> (\<exists>rnd' pg' k. (\<forall>n. 0 \<le> rnd' n \<and> rnd' n < 1 \<and> fl (rnd' n) = rnd' n) \<and> k < 36
         \<and> real (clientWidth pg') + 20 < p_x (particles (created rnd' pg') ! k)
         \<and> real (clientHeight pg') + 20 < p_y (particles (created rnd' pg') ! k))
   \<and> w (mount rnd pg) = clientWidth pg
   \<and> h (mount rnd pg) = clientHeight pg
   \<and> (\<forall>p \<in> set (particles (mount rnd pg)).
         - 20 \<le> p_x p \<and> p_x p \<le> real (clientWidth pg) + 20
         \<and> - 20 \<le> p_y p \<and> p_y p \<le> real (clientHeight pg) + 20)
   \<and> (\<forall>k < 36.
         (real (clientWidth pg) + 20
             < add64 (p_x (particles (created rnd pg) ! k)) (p_vx (particles (created rnd pg) ! k))
           \<longrightarrow> p_x (particles (mount rnd pg) ! k) = - 20)
         \<and> (add64 (p_x (particles (created rnd pg) ! k)) (p_vx (particles (created rnd pg) ! k)) < - 20
           \<longrightarrow> p_x (particles (mount rnd pg) ! k) = real (clientWidth pg) + 20)
         \<and> (real (clientHeight pg) + 20
             < add64 (p_y (particles (created rnd pg) ! k)) (p_vy (particles (created rnd pg) ! k))
           \<longrightarrow> p_y (particles (mount rnd pg) ! k) = - 20)
         \<and> (add64 (p_y (particles (created rnd pg) ! k)) (p_vy (particles (created rnd pg) ! k)) < - 20
           \<longrightarrow> p_y (particles (mount rnd pg) ! k) = real (clientHeight pg) + 20))"
proof -
  have c: "particles (created rnd pg) = init_particles rnd pg"
    by (simp add: created_def)
  have a: "\<forall>k < 36. p_x (particles (created rnd pg) ! k) = mul64 (rnd (5 * k)) (real (innerWidth pg))
             \<and> p_y (particles (created rnd pg) ! k) = mul64 (rnd (5 * k + 1)) (real (innerHeight pg))"
    by (simp add: c init_particles_nth new_particle_def)
  have r: "\<forall>n. 0 \<le> demo_rnd n \<and> demo_rnd n < 1 \<and> fl (demo_rnd n) = demo_rnd n"
    unfolding demo_rnd_def by (simp add: fl_fixed)
  have "real (clientWidth page_small) + 20 < p_x (particles (created demo_rnd page_small) ! 0)
      \<and> real (clientHeight page_small) + 20 < p_y (particles (created demo_rnd page_small) ! 0)"
    by (simp add: created_particle_demo) (simp add: page_small_def)
  with r have b: "\<exists>rnd' pg' k. (\<forall>n. 0 \<le> rnd' n \<and> rnd' n < 1 \<and> fl (rnd' n) = rnd' n) \<and> k < 36
         \<and> real (clientWidth pg') + 20 < p_x (particles (created rnd' pg') ! k)
         \<and> real (clientHeight pg') + 20 < p_y (particles (created rnd' pg') ! k)"
    by (intro exI [of _ demo_rnd] exI [of _ page_small] exI [of _ "0::nat"]) simp
  have d: "\<forall>p \<in> set (particles (mount rnd pg)).
         - 20 \<le> p_x p \<and> p_x p \<le> real (clientWidth pg) + 20
         \<and> - 20 \<le> p_y p \<and> p_y p \<le> real (clientHeight pg) + 20"
    by (auto simp: mount_fields advance_x advance_y)
  have e: "\<forall>k < 36.
         (real (clientWidth pg) + 20
             < add64 (p_x (particles (created rnd pg) ! k)) (p_vx (particles (created rnd pg) ! k))
           \<longrightarrow> p_x (particles (mount rnd pg) ! k) = - 20)
         \<and> (add64 (p_x (particles (created rnd pg) ! k)) (p_vx (particles (created rnd pg) ! k)) < - 20
           \<longrightarrow> p_x (particles (mount rnd pg) ! k) = real (clientWidth pg) + 20)
         \<and> (real (clientHeight pg) + 20
             < add64 (p_y (particles (created rnd pg) ! k)) (p_vy (particles (created rnd pg) ! k))
           \<longrightarrow> p_y (particles (mount rnd pg) ! k) = - 20)
         \<and> (add64 (p_y (particles (created rnd pg) ! k)) (p_vy (particles (created rnd pg) ! k)) < - 20
           \<longrightarrow> p_y (particles (mount rnd pg) ! k) = real (clientHeight pg) + 20)"
    by (simp add: c mount_fields length_init_particles advance_x advance_y)
  from a b d e show ?thesis
    by (simp only: mount_fields simp_thms)
qed

theorem initial_positions_and_first_update_witness:
  "p_x (particles (created demo_rnd page_small) ! 0) = 500
   \<and> p_y (particles (created demo_rnd page_small) ! 0) = 400
   \<and> p_x (particles (mount demo_rnd page_small) ! 0) = - 20
   \<and> p_y (particles (mount demo_rnd page_small) ! 0) = - 20"
proof -
  note t = initial_positions_and_first_update [of demo_rnd page_small]
  have cw: "clientWidth page_small = 100" "clientHeight page_small = 100"
    by (simp_all add: page_small_def)
  from t have "p_x (particles (mount demo_rnd page_small) ! 0) = - 20
      \<and> p_y (particles (mount demo_rnd page_small) ! 0) = - 20"
    by (simp add: created_particle_demo cw arith64 fl_numeral)
  then show ?thesis
    by (simp add: created_particle_demo)
qed

end
